theory Spec2Isabelle
  imports Main
begin

section \<open>The Remootio garage-door accessory\<close>

text \<open>
  The source file holds two copies of the class \<open>RemootioHomebridgeAccessory\<close>: the
  accessory-plugin class (lines 124 to 396) and the platform-accessory class (lines 483
  to 782). Their methods \<open>setCurrentDoorState\<close>, \<open>getCurrentStateHandler\<close>,
  \<open>getTargetStateHandler\<close> and \<open>setTargetStateHandler\<close> compute the same thing and are
  modelled once; \<open>handleIncomingMessage\<close> differs between the copies and is modelled
  twice. Logging is left out. A handler's call of its callback is the first component of
  the pair it returns; the fields of the object after the call are the second.
\<close>

subsection \<open>Door states\<close>

text \<open>
  Modelled from the spec: the members of \<open>Characteristic.CurrentDoorState\<close> and
  \<open>Characteristic.TargetDoorState\<close> are declared by the homebridge library, not in this
  repository. They are the DoorState values of the spec, numbered by their position in the
  source's table \<open>garageDoorOpenerStateToString\<close>. \<open>UNKNOWN\<close> is the value \<open>-1\<close> the
  source gives to both fields before any update; the handlers test it as \<open>< 0\<close>.
\<close>

definition OPEN :: int where "OPEN = 0"
definition CLOSED :: int where "CLOSED = 1"
definition OPENING :: int where "OPENING = 2"
definition CLOSING :: int where "CLOSING = 3"
definition STOPPED :: int where "STOPPED = 4"
definition UNKNOWN :: int where "UNKNOWN = - 1"

subsection \<open>The device client and the accessory\<close>

text \<open>
  The calls the accessory makes on the \<open>remootio-api-client\<close> device object. The device
  is external; the model keeps the calls it has received, oldest first.
\<close>

datatype command = Connect bool | Authenticate | SendQuery | SendOpen | SendClose

record RemootioDevice =
  isConnected :: bool
  isAuthenticated :: bool
  sent :: "command list"

record accessory =
  currentState :: int
  targetState :: int
  device :: RemootioDevice
  updates :: "int list"  \<comment> \<open>values given to \<open>updateValue\<close> of CurrentDoorState, oldest first\<close>

text \<open>The errors handed to a callback: 'No value available', 'no value', 'Not Connected'.\<close>

datatype error = NoValueAvailable | NoValue | NotConnected

definition call :: "command \<Rightarrow> accessory \<Rightarrow> accessory" where
  "call c s = s\<lparr>device := (device s)\<lparr>sent := sent (device s) @ [c]\<rparr>\<rparr>"

text \<open>
  The object once the constructor (or \<open>configureDevice\<close>) has run with a complete
  configuration: both fields \<open>-1\<close>, and \<open>connect(true)\<close> requested from a device that is
  neither connected nor authenticated yet.
\<close>

definition initial :: accessory where
  "initial = \<lparr>currentState = - 1, targetState = - 1,
     device = \<lparr>isConnected = False, isAuthenticated = False, sent = [Connect True]\<rparr>,
     updates = []\<rparr>"

subsection \<open>Payloads\<close>

text \<open>
  The fields of the decrypted payload that the code reads. A field the code compares with
  \<open>undefined\<close> is an option; \<open>event.data?.keyType\<close> is \<open>None\<close> when \<open>data\<close> or
  \<open>keyType\<close> is missing.
\<close>

record RemootioEventData =
  keyType :: "string option"

record RemootioEvent =
  event_type :: string
  event_state :: "string option"
  event_data :: "RemootioEventData option"

record RemootioResponse =
  response_type :: string
  response_state :: "string option"

record RemootioDecryptedPayload =
  event :: "RemootioEvent option"
  response :: "RemootioResponse option"

record RemootioFrame =
  frame_type :: "string option"
  challenge :: bool

definition data_keyType :: "RemootioEvent \<Rightarrow> string option" where
  "data_keyType e = (case event_data e of None \<Rightarrow> None | Some d \<Rightarrow> keyType d)"

subsection \<open>setCurrentDoorState (lines 272 to 303 and 672 to 708)\<close>

definition set_current :: "int \<Rightarrow> accessory \<Rightarrow> accessory" where
  "set_current v s = s\<lparr>currentState := v, updates := updates s @ [v]\<rparr>"

definition setCurrentDoorState :: "string \<Rightarrow> accessory \<Rightarrow> accessory" where
  "setCurrentDoorState state s =
     (if state = ''open'' then set_current OPEN s
      else if state = ''closed'' then set_current CLOSED s
      else if state = ''opening'' then set_current OPENING s
      else if state = ''closing'' then set_current CLOSING s
      else s)"

subsection \<open>handleIncomingMessage\<close>

text \<open>The response part is the same in both copies (lines 252 to 258 and 655 to 660).\<close>

definition handleResponse :: "RemootioDecryptedPayload \<Rightarrow> accessory \<Rightarrow> accessory" where
  "handleResponse p s =
     (case response p of
        None \<Rightarrow> s
      | Some r \<Rightarrow>
          (case response_state r of
             None \<Rightarrow> s
           | Some st \<Rightarrow> if response_type r = ''QUERY'' then setCurrentDoorState st s else s))"

text \<open>The accessory-plugin copy, lines 236 to 270.\<close>

definition handleEvent_accessory :: "RemootioDecryptedPayload \<Rightarrow> accessory \<Rightarrow> accessory" where
  "handleEvent_accessory p s =
     (case event p of
        None \<Rightarrow> s
      | Some e \<Rightarrow>
          (case event_state e of
             None \<Rightarrow> s
           | Some st \<Rightarrow>
               (let s1 = (if event_type e = ''StateChange'' then setCurrentDoorState st s else s);
                    s2 = (if event_type e = ''RelayTrigger'' \<and> st = ''open''
                          then setCurrentDoorState ''closing'' s1 else s1);
                    s3 = (if event_type e = ''RelayTrigger'' \<and> st = ''closed''
                          then setCurrentDoorState ''opening'' s2 else s2)
                in s3)))"

definition handleIncomingMessage_accessory ::
  "RemootioFrame option \<Rightarrow> RemootioDecryptedPayload option \<Rightarrow> accessory \<Rightarrow> accessory" where
  "handleIncomingMessage_accessory frame decryptedPayload s =
     (case decryptedPayload of
        None \<Rightarrow> s
      | Some p \<Rightarrow> handleResponse p (handleEvent_accessory p s))"

text \<open>The platform-accessory copy, lines 628 to 670.\<close>

definition handleEvent_platform :: "RemootioDecryptedPayload \<Rightarrow> accessory \<Rightarrow> accessory" where
  "handleEvent_platform p s =
     (case event p of
        None \<Rightarrow> s
      | Some e \<Rightarrow>
          (case event_state e of
             None \<Rightarrow> s
           | Some st \<Rightarrow>
               (let s1 = (if event_type e = ''StateChange''
                          then (let s0 = setCurrentDoorState st s
                                in if st = ''closed'' then s0\<lparr>targetState := CLOSED\<rparr> else s0)
                          else s);
                    s2 = (if event_type e = ''RelayTrigger'' \<and> st = ''open''
                             \<and> data_keyType e = Some ''api key''
                          then setCurrentDoorState ''closing'' s1 else s1);
                    s3 = (if event_type e = ''RelayTrigger'' \<and> st = ''closed''
                             \<and> data_keyType e = Some ''api key''
                          then setCurrentDoorState ''opening'' s2 else s2)
                in s3)))"

definition handleIncomingMessage_platform ::
  "RemootioFrame option \<Rightarrow> RemootioDecryptedPayload option \<Rightarrow> accessory \<Rightarrow> accessory" where
  "handleIncomingMessage_platform frame decryptedPayload s =
     (case decryptedPayload of
        None \<Rightarrow> s
      | Some p \<Rightarrow> handleResponse p (handleEvent_platform p s))"

datatype variant = AccessoryPlugin | PlatformAccessory

fun handleIncomingMessage ::
  "variant \<Rightarrow> RemootioFrame option \<Rightarrow> RemootioDecryptedPayload option \<Rightarrow> accessory \<Rightarrow> accessory" where
  "handleIncomingMessage AccessoryPlugin = handleIncomingMessage_accessory"
| "handleIncomingMessage PlatformAccessory = handleIncomingMessage_platform"

subsection \<open>The characteristic handlers\<close>

text \<open>getCurrentStateHandler, lines 305 to 320 and 710 to 724.\<close>

definition getCurrentStateHandler :: "accessory \<Rightarrow> (error + int) \<times> accessory" where
  "getCurrentStateHandler s =
     (let r = (if currentState s < 0 then Inl NoValueAvailable else Inr (currentState s))
      in (r, call SendQuery s))"

text \<open>getTargetStateHandler, lines 322 to 339 and 726 to 742.\<close>

definition getTargetStateHandler :: "accessory \<Rightarrow> (error + int) \<times> accessory" where
  "getTargetStateHandler s =
     (if targetState s < 0 then
        (if currentState s < 0 then (Inl NoValueAvailable, s)
         else (let s' = s\<lparr>targetState := currentState s\<rparr> in (Inr (targetState s'), s')))
      else (Inr (targetState s), s))"

text \<open>
  setTargetStateHandler, lines 345 to 379 and 748 to 781. The new value is \<open>None\<close> when
  it is \<open>undefined\<close> or \<open>null\<close>, and a number otherwise.
\<close>

definition setTargetStateHandler :: "int option \<Rightarrow> accessory \<Rightarrow> (error + unit) \<times> accessory" where
  "setTargetStateHandler newValue s =
     (case newValue of
        None \<Rightarrow> (Inl NoValue, s)
      | Some newState \<Rightarrow>
          (let oldState = targetState s in
           if newState \<noteq> oldState then
             (if \<not> isConnected (device s) \<or> \<not> isAuthenticated (device s)
              then (Inl NotConnected, s)
              else (let s1 = s\<lparr>targetState := newState\<rparr>;
                        s2 = (if newState = OPEN then call SendOpen s1
                              else if newState = CLOSED then call SendClose s1
                              else s1)
                    in (Inr (), s2)))
           else (Inr (), s)))"

text \<open>The listener of the device's 'connected' signal, lines 211 to 214 and 599 to 602.\<close>

definition onConnected :: "accessory \<Rightarrow> accessory" where
  "onConnected s = call Authenticate s"

subsection \<open>Executions\<close>

text \<open>
  What can happen to a configured accessory: a message from the device, a request from
  the hub, one of the device's signals (only 'connected' has a listener that does more
  than log), or the device changing its own flags.
\<close>

datatype input =
    IncomingMessage "RemootioFrame option" "RemootioDecryptedPayload option"
  | GetCurrentState
  | GetTargetState
  | SetTargetState "int option"
  | ConnectedSignal
  | AuthenticatedSignal
  | DisconnectSignal
  | ErrorSignal
  | DeviceFlags bool bool

fun step :: "variant \<Rightarrow> input \<Rightarrow> accessory \<Rightarrow> accessory" where
  "step v (IncomingMessage f p) s = handleIncomingMessage v f p s"
| "step v GetCurrentState s = snd (getCurrentStateHandler s)"
| "step v GetTargetState s = snd (getTargetStateHandler s)"
| "step v (SetTargetState x) s = snd (setTargetStateHandler x s)"
| "step v ConnectedSignal s = onConnected s"
| "step v AuthenticatedSignal s = s"
| "step v DisconnectSignal s = s"
| "step v ErrorSignal s = s"
| "step v (DeviceFlags c a) s = s\<lparr>device := (device s)\<lparr>isConnected := c, isAuthenticated := a\<rparr>\<rparr>"

fun run :: "variant \<Rightarrow> input list \<Rightarrow> accessory \<Rightarrow> accessory" where
  "run v [] s = s"
| "run v (i # ins) s = run v ins (step v i s)"

text \<open>
  The payload of a StateChange event, of a RelayTrigger event and of the response to a
  query, each carrying the state string \<open>st\<close>: an event payload has no response part and
  a response payload no event part.
\<close>

definition stateChange :: "RemootioDecryptedPayload \<Rightarrow> string \<Rightarrow> bool" where
  "stateChange p st \<longleftrightarrow>
     (case event p of
        None \<Rightarrow> False
      | Some e \<Rightarrow> event_type e = ''StateChange'' \<and> event_state e = Some st)
     \<and> response p = None"

definition relayTrigger :: "RemootioDecryptedPayload \<Rightarrow> string \<Rightarrow> string option \<Rightarrow> bool" where
  "relayTrigger p st kt \<longleftrightarrow>
     (case event p of
        None \<Rightarrow> False
      | Some e \<Rightarrow> event_type e = ''RelayTrigger'' \<and> event_state e = Some st \<and> data_keyType e = kt)
     \<and> response p = None"

definition queryResponse :: "RemootioDecryptedPayload \<Rightarrow> string \<Rightarrow> bool" where
  "queryResponse p st \<longleftrightarrow>
     event p = None
     \<and> (case response p of
          None \<Rightarrow> False
        | Some r \<Rightarrow> response_type r = ''QUERY'' \<and> response_state r = Some st)"

text \<open>The values \<open>currentState\<close> takes: the initial one and the four that are assigned.\<close>

definition door_values :: "int set" where
  "door_values = {UNKNOWN, OPEN, CLOSED, OPENING, CLOSING}"

text \<open>The commands a step added to the device's list.\<close>

definition issued :: "accessory \<Rightarrow> accessory \<Rightarrow> command list" where
  "issued s s' = drop (length (sent (device s))) (sent (device s'))"

text \<open>
  Along an execution, every step that issues \<open>sendOpen\<close> or \<open>sendClose\<close> starts with
  both flags of the device true.
\<close>

fun actuation_gated :: "variant \<Rightarrow> input list \<Rightarrow> accessory \<Rightarrow> bool" where
  "actuation_gated v [] s = True"
| "actuation_gated v (i # ins) s =
     ((if SendOpen \<in> set (issued s (step v i s)) \<or> SendClose \<in> set (issued s (step v i s))
       then isConnected (device s) \<and> isAuthenticated (device s) else True)
      \<and> actuation_gated v ins (step v i s))"

section \<open>Properties\<close>

subsection \<open>Helper facts\<close>

lemmas door_state_defs = OPEN_def CLOSED_def OPENING_def CLOSING_def STOPPED_def UNKNOWN_def

lemma setCurrentDoorState_keeps:
  "currentState s \<in> door_values \<Longrightarrow> currentState (setCurrentDoorState st s) \<in> door_values"
  by (simp add: setCurrentDoorState_def set_current_def door_values_def)

text \<open>What each copy of \<open>handleIncomingMessage\<close> does with the three kinds of payload.\<close>

lemma stateChange_accessory:
  "stateChange p st \<Longrightarrow> handleIncomingMessage_accessory f (Some p) s = setCurrentDoorState st s"
  by (auto simp add: stateChange_def handleIncomingMessage_accessory_def handleEvent_accessory_def
      handleResponse_def split: option.splits)

lemma stateChange_platform:
  "stateChange p st \<Longrightarrow> handleIncomingMessage_platform f (Some p) s =
     (if st = ''closed'' then (setCurrentDoorState st s)\<lparr>targetState := CLOSED\<rparr>
      else setCurrentDoorState st s)"
  by (auto simp add: stateChange_def handleIncomingMessage_platform_def handleEvent_platform_def
      handleResponse_def split: option.splits)

lemma relayTrigger_accessory:
  "relayTrigger p st kt \<Longrightarrow> handleIncomingMessage_accessory f (Some p) s =
     (if st = ''open'' then setCurrentDoorState ''closing'' s
      else if st = ''closed'' then setCurrentDoorState ''opening'' s
      else s)"
  by (auto simp add: relayTrigger_def handleIncomingMessage_accessory_def handleEvent_accessory_def
      handleResponse_def split: option.splits)

lemma relayTrigger_platform:
  "relayTrigger p st kt \<Longrightarrow> handleIncomingMessage_platform f (Some p) s =
     (if kt = Some ''api key'' \<and> st = ''open'' then setCurrentDoorState ''closing'' s
      else if kt = Some ''api key'' \<and> st = ''closed'' then setCurrentDoorState ''opening'' s
      else s)"
  by (auto simp add: relayTrigger_def handleIncomingMessage_platform_def handleEvent_platform_def
      handleResponse_def split: option.splits)

lemma queryResponse_any:
  "queryResponse p st \<Longrightarrow> handleIncomingMessage v f (Some p) s = setCurrentDoorState st s"
  by (cases v) (auto simp add: queryResponse_def handleIncomingMessage_accessory_def
      handleIncomingMessage_platform_def handleEvent_accessory_def handleEvent_platform_def
      handleResponse_def split: option.splits)

text \<open>No message touches the device.\<close>

lemma setCurrentDoorState_device:
  "device (setCurrentDoorState st s) = device s"
  by (simp add: setCurrentDoorState_def set_current_def)

lemma handleResponse_device: "device (handleResponse p s) = device s"
  by (simp add: handleResponse_def setCurrentDoorState_device split: option.splits)

lemma handleEvent_accessory_device: "device (handleEvent_accessory p s) = device s"
  by (simp add: handleEvent_accessory_def setCurrentDoorState_device Let_def split: option.splits)

lemma handleEvent_platform_device: "device (handleEvent_platform p s) = device s"
  by (simp add: handleEvent_platform_def setCurrentDoorState_device Let_def split: option.splits)

lemma handleIncomingMessage_device:
  "device (handleIncomingMessage v f p s) = device s"
  by (cases v) (simp_all add: handleIncomingMessage_accessory_def
      handleIncomingMessage_platform_def handleResponse_device handleEvent_accessory_device
      handleEvent_platform_device split: option.splits)

text \<open>Every step keeps \<open>currentState\<close> among the five values.\<close>

lemma handleResponse_keeps:
  "currentState s \<in> door_values \<Longrightarrow> currentState (handleResponse p s) \<in> door_values"
  unfolding handleResponse_def
  by (simp add: setCurrentDoorState_keeps split: option.splits)

lemma handleEvent_accessory_keeps:
  assumes "currentState s \<in> door_values"
  shows "currentState (handleEvent_accessory p s) \<in> door_values"
proof (cases "event p")
  case None
  with assms show ?thesis by (simp add: handleEvent_accessory_def)
next
  case (Some e)
  show ?thesis
  proof (cases "event_state e")
    case None
    with Some assms show ?thesis by (simp add: handleEvent_accessory_def)
  next
    case (Some st)
    define s1 where "s1 = (if event_type e = ''StateChange'' then setCurrentDoorState st s else s)"
    define s2 where "s2 = (if event_type e = ''RelayTrigger'' \<and> st = ''open''
                          then setCurrentDoorState ''closing'' s1 else s1)"
    define s3 where "s3 = (if event_type e = ''RelayTrigger'' \<and> st = ''closed''
                          then setCurrentDoorState ''opening'' s2 else s2)"
    have 1: "currentState s1 \<in> door_values"
      unfolding s1_def using assms setCurrentDoorState_keeps by simp
    have 2: "currentState s2 \<in> door_values"
      unfolding s2_def using 1 setCurrentDoorState_keeps by simp
    have 3: "currentState s3 \<in> door_values"
      unfolding s3_def using 2 setCurrentDoorState_keeps by simp
    have "handleEvent_accessory p s = s3"
      using \<open>event p = Some e\<close> Some
      by (simp add: handleEvent_accessory_def s1_def s2_def s3_def)
    with 3 show ?thesis by simp
  qed
qed

lemma handleEvent_platform_keeps:
  assumes "currentState s \<in> door_values"
  shows "currentState (handleEvent_platform p s) \<in> door_values"
proof (cases "event p")
  case None
  with assms show ?thesis by (simp add: handleEvent_platform_def)
next
  case (Some e)
  show ?thesis
  proof (cases "event_state e")
    case None
    with Some assms show ?thesis by (simp add: handleEvent_platform_def)
  next
    case (Some st)
    define s1 where "s1 = (if event_type e = ''StateChange''
                          then (let s0 = setCurrentDoorState st s
                                in if st = ''closed'' then s0\<lparr>targetState := CLOSED\<rparr> else s0)
                          else s)"
    define s2 where "s2 = (if event_type e = ''RelayTrigger'' \<and> st = ''open''
                             \<and> data_keyType e = Some ''api key''
                          then setCurrentDoorState ''closing'' s1 else s1)"
    define s3 where "s3 = (if event_type e = ''RelayTrigger'' \<and> st = ''closed''
                             \<and> data_keyType e = Some ''api key''
                          then setCurrentDoorState ''opening'' s2 else s2)"
    have 1: "currentState s1 \<in> door_values"
      unfolding s1_def using assms setCurrentDoorState_keeps by (simp add: Let_def)
    have 2: "currentState s2 \<in> door_values"
      unfolding s2_def using 1 setCurrentDoorState_keeps by simp
    have 3: "currentState s3 \<in> door_values"
      unfolding s3_def using 2 setCurrentDoorState_keeps by simp
    have "handleEvent_platform p s = s3"
      using \<open>event p = Some e\<close> Some
      by (simp add: handleEvent_platform_def s1_def s2_def s3_def)
    with 3 show ?thesis by simp
  qed
qed

lemma handleIncomingMessage_keeps:
  "currentState s \<in> door_values \<Longrightarrow> currentState (handleIncomingMessage v f p s) \<in> door_values"
  by (cases v) (simp_all add: handleIncomingMessage_accessory_def
      handleIncomingMessage_platform_def handleResponse_keeps handleEvent_accessory_keeps
      handleEvent_platform_keeps split: option.splits)

lemma step_keeps:
  "currentState s \<in> door_values \<Longrightarrow> currentState (step v i s) \<in> door_values"
  by (cases i) (simp_all add: handleIncomingMessage_keeps getCurrentStateHandler_def
      getTargetStateHandler_def setTargetStateHandler_def call_def onConnected_def Let_def
      split: option.splits)

lemma run_keeps:
  "currentState s \<in> door_values \<Longrightarrow> currentState (run v ins s) \<in> door_values"
  by (induction ins arbitrary: s) (simp_all add: step_keeps)

text \<open>A step that issues \<open>sendOpen\<close> or \<open>sendClose\<close> found both flags true.\<close>

lemma step_gated:
  "SendOpen \<in> set (issued s (step v i s)) \<or> SendClose \<in> set (issued s (step v i s)) \<Longrightarrow>
   isConnected (device s) \<and> isAuthenticated (device s)"
  by (cases i) (auto simp add: issued_def handleIncomingMessage_device getCurrentStateHandler_def
      getTargetStateHandler_def setTargetStateHandler_def call_def onConnected_def Let_def
      split: option.splits if_splits)

lemma setTargetStateHandler_refused:
  "x \<noteq> targetState s \<Longrightarrow> \<not> (isConnected (device s) \<and> isAuthenticated (device s)) \<Longrightarrow>
   setTargetStateHandler (Some x) s = (Inl NotConnected, s)"
  by (auto simp add: setTargetStateHandler_def)

subsection \<open>Messages from the device\<close>

text \<open>
  The platform-accessory copy handles a RelayTrigger event only when its key type is
  'api key': state 'open' gives CLOSING, state 'closed' gives OPENING, and with any other
  key type, or none, the whole object is left as it was.
\<close>

lemma relayTrigger_platform_keyType:
  assumes "relayTrigger p st kt"
  shows "(kt = Some ''api key'' \<and> st = ''open'' \<longrightarrow>
            currentState (handleIncomingMessage PlatformAccessory f (Some p) s) = CLOSING)
       \<and> (kt = Some ''api key'' \<and> st = ''closed'' \<longrightarrow>
            currentState (handleIncomingMessage PlatformAccessory f (Some p) s) = OPENING)
       \<and> (kt \<noteq> Some ''api key'' \<longrightarrow> handleIncomingMessage PlatformAccessory f (Some p) s = s)
       \<and> targetState (handleIncomingMessage PlatformAccessory f (Some p) s) = targetState s"
  using relayTrigger_platform [OF assms, of f s]
  by (simp add: setCurrentDoorState_def set_current_def)

text \<open>
  C1: a RelayTrigger event changes \<open>currentState\<close> only if its key type is 'api key', and
  one with another key type leaves \<open>currentState\<close> and \<open>targetState\<close> as they were. The
  accessory-plugin copy of \<open>handleIncomingMessage\<close> (lines 245 to 250) never reads the key
  type: a RelayTrigger event with state 'open' and key type 'master key', arriving at the
  freshly configured accessory, moves \<open>currentState\<close> from \<open>-1\<close> to CLOSING.
\<close>

theorem relayTrigger_accessory_ignores_keyType:
  "relayTrigger
     \<lparr>event = Some \<lparr>event_type = ''RelayTrigger'', event_state = Some ''open'',
                     event_data = Some \<lparr>keyType = Some ''master key''\<rparr>\<rparr>,
      response = None\<rparr> ''open'' (Some ''master key'')
   \<and> currentState initial = UNKNOWN
   \<and> currentState (handleIncomingMessage AccessoryPlugin None
        (Some \<lparr>event = Some \<lparr>event_type = ''RelayTrigger'', event_state = Some ''open'',
                              event_data = Some \<lparr>keyType = Some ''master key''\<rparr>\<rparr>,
               response = None\<rparr>) initial) = CLOSING
   \<and> currentState (handleIncomingMessage PlatformAccessory None
        (Some \<lparr>event = Some \<lparr>event_type = ''RelayTrigger'', event_state = Some ''open'',
                              event_data = Some \<lparr>keyType = Some ''master key''\<rparr>\<rparr>,
               response = None\<rparr>) initial) = UNKNOWN"
  by (simp add: relayTrigger_def data_keyType_def handleIncomingMessage_accessory_def
      handleIncomingMessage_platform_def handleEvent_accessory_def handleEvent_platform_def
      handleResponse_def setCurrentDoorState_def set_current_def initial_def door_state_defs)

text \<open>
  The platform-accessory copy sets both fields to CLOSED on a StateChange event with state
  'closed', whatever \<open>targetState\<close> was.
\<close>

lemma stateChange_closed_platform:
  assumes "stateChange p ''closed''"
  shows "targetState (handleIncomingMessage PlatformAccessory f (Some p) s) = CLOSED
       \<and> currentState (handleIncomingMessage PlatformAccessory f (Some p) s) = CLOSED"
  using stateChange_platform [OF assms, of f s]
  by (simp add: setCurrentDoorState_def set_current_def)

text \<open>
  C2: a StateChange event with state 'closed' sets \<open>targetState\<close> to CLOSED, whatever it
  was. The accessory-plugin copy of \<open>handleIncomingMessage\<close> (lines 241 to 244) only calls
  \<open>setCurrentDoorState\<close>: with \<open>targetState\<close> OPEN before the event, \<open>currentState\<close>
  becomes CLOSED and \<open>targetState\<close> stays OPEN, where the platform-accessory copy makes
  it CLOSED.
\<close>

theorem stateChange_closed_accessory_keeps_target:
  "stateChange
     \<lparr>event = Some \<lparr>event_type = ''StateChange'', event_state = Some ''closed'', event_data = None\<rparr>,
      response = None\<rparr> ''closed''
   \<and> targetState (handleIncomingMessage AccessoryPlugin None
        (Some \<lparr>event = Some \<lparr>event_type = ''StateChange'', event_state = Some ''closed'',
                              event_data = None\<rparr>,
               response = None\<rparr>) (initial\<lparr>targetState := OPEN\<rparr>)) = OPEN
   \<and> currentState (handleIncomingMessage AccessoryPlugin None
        (Some \<lparr>event = Some \<lparr>event_type = ''StateChange'', event_state = Some ''closed'',
                              event_data = None\<rparr>,
               response = None\<rparr>) (initial\<lparr>targetState := OPEN\<rparr>)) = CLOSED
   \<and> targetState (handleIncomingMessage PlatformAccessory None
        (Some \<lparr>event = Some \<lparr>event_type = ''StateChange'', event_state = Some ''closed'',
                              event_data = None\<rparr>,
               response = None\<rparr>) (initial\<lparr>targetState := OPEN\<rparr>)) = CLOSED
   \<and> OPEN \<noteq> CLOSED"
  by (simp add: stateChange_def handleIncomingMessage_accessory_def
      handleIncomingMessage_platform_def handleEvent_accessory_def handleEvent_platform_def
      handleResponse_def setCurrentDoorState_def set_current_def initial_def door_state_defs)

text \<open>
  C4, as the code has it: after a StateChange event with one of the four state strings
  that \<open>setCurrentDoorState\<close> knows, \<open>getCurrentStateHandler\<close> returns the door state
  of that name, in both copies; with any other string, 'stopped' among them, it returns
  what it would have returned before the event.
\<close>

theorem stateChange_then_getCurrentState:
  assumes "stateChange p st"
  shows "(st = ''open'' \<longrightarrow>
            fst (getCurrentStateHandler (handleIncomingMessage v f (Some p) s)) = Inr OPEN)
       \<and> (st = ''closed'' \<longrightarrow>
            fst (getCurrentStateHandler (handleIncomingMessage v f (Some p) s)) = Inr CLOSED)
       \<and> (st = ''opening'' \<longrightarrow>
            fst (getCurrentStateHandler (handleIncomingMessage v f (Some p) s)) = Inr OPENING)
       \<and> (st = ''closing'' \<longrightarrow>
            fst (getCurrentStateHandler (handleIncomingMessage v f (Some p) s)) = Inr CLOSING)
       \<and> (st \<notin> {''open'', ''closed'', ''opening'', ''closing''} \<longrightarrow>
            fst (getCurrentStateHandler (handleIncomingMessage v f (Some p) s))
              = fst (getCurrentStateHandler s))"
proof -
  have "currentState (handleIncomingMessage v f (Some p) s)
      = currentState (setCurrentDoorState st s)"
    using assms by (cases v) (simp_all add: stateChange_accessory stateChange_platform)
  then have "fst (getCurrentStateHandler (handleIncomingMessage v f (Some p) s))
      = fst (getCurrentStateHandler (setCurrentDoorState st s))"
    by (simp add: getCurrentStateHandler_def)
  then show ?thesis
    by (simp add: getCurrentStateHandler_def setCurrentDoorState_def set_current_def
        door_state_defs)
qed

theorem stateChange_then_getCurrentState_witness:
  "stateChange
     \<lparr>event = Some \<lparr>event_type = ''StateChange'', event_state = Some ''closing'', event_data = None\<rparr>,
      response = None\<rparr> ''closing''
   \<and> fst (getCurrentStateHandler (handleIncomingMessage AccessoryPlugin None
        (Some \<lparr>event = Some \<lparr>event_type = ''StateChange'', event_state = Some ''closing'',
                              event_data = None\<rparr>,
               response = None\<rparr>) initial)) = Inr CLOSING
   \<and> stateChange
     \<lparr>event = Some \<lparr>event_type = ''StateChange'', event_state = Some ''no sensor'', event_data = None\<rparr>,
      response = None\<rparr> ''no sensor''
   \<and> fst (getCurrentStateHandler (handleIncomingMessage PlatformAccessory None
        (Some \<lparr>event = Some \<lparr>event_type = ''StateChange'', event_state = Some ''no sensor'',
                              event_data = None\<rparr>,
               response = None\<rparr>) initial)) = Inl NoValueAvailable"
proof -
  have h1: "stateChange
     \<lparr>event = Some \<lparr>event_type = ''StateChange'', event_state = Some ''closing'', event_data = None\<rparr>,
      response = None\<rparr> ''closing''"
    by (simp add: stateChange_def)
  have h2: "stateChange
     \<lparr>event = Some \<lparr>event_type = ''StateChange'', event_state = Some ''no sensor'', event_data = None\<rparr>,
      response = None\<rparr> ''no sensor''"
    by (simp add: stateChange_def)
  have g: "fst (getCurrentStateHandler initial) = Inl NoValueAvailable"
    by (simp add: getCurrentStateHandler_def initial_def)
  show ?thesis
    using h1 h2 g
      stateChange_then_getCurrentState [OF h1, of AccessoryPlugin None initial]
      stateChange_then_getCurrentState [OF h2, of PlatformAccessory None initial]
    by simp
qed

text \<open>
  C4 as stated fails at STOPPED: after a StateChange event with state 'stopped' at the
  freshly configured accessory, \<open>getCurrentStateHandler\<close> returns the error 'No value
  available' in both copies, not STOPPED.
\<close>

theorem stateChange_stopped_counterexample:
  "stateChange
     \<lparr>event = Some \<lparr>event_type = ''StateChange'', event_state = Some ''stopped'', event_data = None\<rparr>,
      response = None\<rparr> ''stopped''
   \<and> fst (getCurrentStateHandler (handleIncomingMessage PlatformAccessory None
        (Some \<lparr>event = Some \<lparr>event_type = ''StateChange'', event_state = Some ''stopped'',
                              event_data = None\<rparr>,
               response = None\<rparr>) initial)) \<noteq> Inr STOPPED
   \<and> fst (getCurrentStateHandler (handleIncomingMessage AccessoryPlugin None
        (Some \<lparr>event = Some \<lparr>event_type = ''StateChange'', event_state = Some ''stopped'',
                              event_data = None\<rparr>,
               response = None\<rparr>) initial)) \<noteq> Inr STOPPED"
  by (simp add: stateChange_def handleIncomingMessage_platform_def
      handleIncomingMessage_accessory_def handleEvent_platform_def handleEvent_accessory_def
      handleResponse_def setCurrentDoorState_def getCurrentStateHandler_def initial_def)

text \<open>
  C5, as the code has it: the response to a query with one of the four state strings that
  \<open>setCurrentDoorState\<close> knows sets \<open>currentState\<close> to the door state of that name,
  whatever \<open>currentState\<close> was, in both copies; with any other string, 'stopped' among
  them, the object is left as it was.
\<close>

theorem queryResponse_sets_currentState:
  assumes "queryResponse p st"
  shows "(st = ''open'' \<longrightarrow> currentState (handleIncomingMessage v f (Some p) s) = OPEN)
       \<and> (st = ''closed'' \<longrightarrow> currentState (handleIncomingMessage v f (Some p) s) = CLOSED)
       \<and> (st = ''opening'' \<longrightarrow> currentState (handleIncomingMessage v f (Some p) s) = OPENING)
       \<and> (st = ''closing'' \<longrightarrow> currentState (handleIncomingMessage v f (Some p) s) = CLOSING)
       \<and> (st \<notin> {''open'', ''closed'', ''opening'', ''closing''} \<longrightarrow>
            handleIncomingMessage v f (Some p) s = s)"
  using queryResponse_any [OF assms, of v f s]
  by (simp add: setCurrentDoorState_def set_current_def)

theorem queryResponse_sets_currentState_witness:
  "queryResponse
     \<lparr>event = None,
      response = Some \<lparr>response_type = ''QUERY'', response_state = Some ''open''\<rparr>\<rparr> ''open''
   \<and> currentState (initial\<lparr>currentState := CLOSING\<rparr>) = CLOSING
   \<and> currentState (handleIncomingMessage PlatformAccessory None
        (Some \<lparr>event = None,
               response = Some \<lparr>response_type = ''QUERY'', response_state = Some ''open''\<rparr>\<rparr>)
        (initial\<lparr>currentState := CLOSING\<rparr>)) = OPEN"
proof -
  have h: "queryResponse
     \<lparr>event = None,
      response = Some \<lparr>response_type = ''QUERY'', response_state = Some ''open''\<rparr>\<rparr> ''open''"
    by (simp add: queryResponse_def)
  show ?thesis
    using h queryResponse_sets_currentState [OF h, of PlatformAccessory None
        "initial\<lparr>currentState := CLOSING\<rparr>"]
    by simp
qed

text \<open>
  C5 as stated fails at STOPPED: the response to a query with state 'stopped', arriving
  while \<open>currentState\<close> is OPENING, leaves it OPENING.
\<close>

theorem queryResponse_stopped_counterexample:
  "queryResponse
     \<lparr>event = None,
      response = Some \<lparr>response_type = ''QUERY'', response_state = Some ''stopped''\<rparr>\<rparr> ''stopped''
   \<and> currentState (handleIncomingMessage PlatformAccessory None
        (Some \<lparr>event = None,
               response = Some \<lparr>response_type = ''QUERY'', response_state = Some ''stopped''\<rparr>\<rparr>)
        (initial\<lparr>currentState := OPENING\<rparr>)) = OPENING
   \<and> currentState (handleIncomingMessage AccessoryPlugin None
        (Some \<lparr>event = None,
               response = Some \<lparr>response_type = ''QUERY'', response_state = Some ''stopped''\<rparr>\<rparr>)
        (initial\<lparr>currentState := OPENING\<rparr>)) = OPENING
   \<and> OPENING \<noteq> STOPPED"
  by (simp add: queryResponse_def handleIncomingMessage_platform_def
      handleIncomingMessage_accessory_def handleEvent_platform_def handleEvent_accessory_def
      handleResponse_def setCurrentDoorState_def initial_def door_state_defs)

subsection \<open>Requests from the hub\<close>

text \<open>
  C6: \<open>getCurrentStateHandler\<close> hands the error 'No value available' to its callback
  while \<open>currentState\<close> is still the negative initial value, and \<open>currentState\<close>
  otherwise; it changes neither field, and in both cases it makes exactly one call of
  \<open>sendQuery\<close> on the device.
\<close>

theorem getCurrentStateHandler_result_and_query:
  "UNKNOWN < 0
   \<and> (currentState s < 0 \<longrightarrow> fst (getCurrentStateHandler s) = Inl NoValueAvailable)
   \<and> (\<not> currentState s < 0 \<longrightarrow> fst (getCurrentStateHandler s) = Inr (currentState s))
   \<and> currentState (snd (getCurrentStateHandler s)) = currentState s
   \<and> targetState (snd (getCurrentStateHandler s)) = targetState s
   \<and> sent (device (snd (getCurrentStateHandler s))) = sent (device s) @ [SendQuery]"
  by (simp add: getCurrentStateHandler_def call_def UNKNOWN_def)

theorem getCurrentStateHandler_result_and_query_witness:
  "currentState initial = UNKNOWN
   \<and> fst (getCurrentStateHandler initial) = Inl NoValueAvailable
   \<and> sent (device (snd (getCurrentStateHandler initial))) = [Connect True, SendQuery]
   \<and> fst (getCurrentStateHandler (initial\<lparr>currentState := OPEN\<rparr>)) = Inr OPEN
   \<and> sent (device (snd (getCurrentStateHandler (initial\<lparr>currentState := OPEN\<rparr>))))
       = [Connect True, SendQuery]"
  using getCurrentStateHandler_result_and_query [of initial]
    getCurrentStateHandler_result_and_query [of "initial\<lparr>currentState := OPEN\<rparr>"]
  by (simp add: initial_def OPEN_def UNKNOWN_def)

text \<open>
  C7: \<open>getTargetStateHandler\<close> hands an error to its callback exactly when
  \<open>targetState\<close> and \<open>currentState\<close> are both still negative, and changes nothing then;
  when only \<open>targetState\<close> is, it copies \<open>currentState\<close> into \<open>targetState\<close> and
  returns it; otherwise it returns \<open>targetState\<close> and changes nothing.
\<close>

theorem getTargetStateHandler_cases:
  "UNKNOWN < 0
   \<and> (isl (fst (getTargetStateHandler s)) \<longleftrightarrow> targetState s < 0 \<and> currentState s < 0)
   \<and> (targetState s < 0 \<and> currentState s < 0 \<longrightarrow>
        getTargetStateHandler s = (Inl NoValueAvailable, s))
   \<and> (targetState s < 0 \<and> \<not> currentState s < 0 \<longrightarrow>
        getTargetStateHandler s = (Inr (currentState s), s\<lparr>targetState := currentState s\<rparr>))
   \<and> (\<not> targetState s < 0 \<longrightarrow> getTargetStateHandler s = (Inr (targetState s), s))"
  by (simp add: getTargetStateHandler_def UNKNOWN_def)

theorem getTargetStateHandler_cases_witness:
  "getTargetStateHandler initial = (Inl NoValueAvailable, initial)
   \<and> getTargetStateHandler (initial\<lparr>currentState := CLOSED\<rparr>)
       = (Inr CLOSED, initial\<lparr>currentState := CLOSED, targetState := CLOSED\<rparr>)
   \<and> getTargetStateHandler (initial\<lparr>currentState := CLOSED, targetState := OPEN\<rparr>)
       = (Inr OPEN, initial\<lparr>currentState := CLOSED, targetState := OPEN\<rparr>)"
  using getTargetStateHandler_cases [of initial]
    getTargetStateHandler_cases [of "initial\<lparr>currentState := CLOSED\<rparr>"]
    getTargetStateHandler_cases [of "initial\<lparr>currentState := CLOSED, targetState := OPEN\<rparr>"]
  by (simp add: initial_def OPEN_def CLOSED_def)

text \<open>
  C8: \<open>setTargetStateHandler\<close> with the value \<open>targetState\<close> already has reports
  success, issues no command and changes neither field. A request made a second time is
  such a request or is refused again, so it returns what the first returned and changes
  nothing more.
\<close>

theorem setTargetStateHandler_same_value:
  "(x = targetState s \<longrightarrow>
      fst (setTargetStateHandler (Some x) s) = Inr ()
      \<and> sent (device (snd (setTargetStateHandler (Some x) s))) = sent (device s)
      \<and> currentState (snd (setTargetStateHandler (Some x) s)) = currentState s
      \<and> targetState (snd (setTargetStateHandler (Some x) s)) = targetState s
      \<and> snd (setTargetStateHandler (Some x) s) = s)
   \<and> setTargetStateHandler (Some x) (snd (setTargetStateHandler (Some x) s))
       = setTargetStateHandler (Some x) s"
  by (simp add: setTargetStateHandler_def call_def Let_def)

theorem setTargetStateHandler_same_value_witness:
  "CLOSED = targetState (initial\<lparr>targetState := CLOSED\<rparr>)
   \<and> setTargetStateHandler (Some CLOSED) (initial\<lparr>targetState := CLOSED\<rparr>)
       = (Inr (), initial\<lparr>targetState := CLOSED\<rparr>)
   \<and> sent (device (snd (setTargetStateHandler (Some CLOSED) (initial\<lparr>targetState := CLOSED\<rparr>))))
       = [Connect True]"
  using setTargetStateHandler_same_value [of CLOSED "initial\<lparr>targetState := CLOSED\<rparr>"]
  by (simp add: initial_def prod_eq_iff)

text \<open>
  C9: \<open>setTargetStateHandler\<close> with a value other than \<open>targetState\<close>, while the device
  is not connected or not authenticated, hands the error 'Not Connected' to its callback,
  issues no command and leaves the object as it was.
\<close>

theorem setTargetStateHandler_not_connected:
  assumes "x \<noteq> targetState s"
    and "\<not> isConnected (device s) \<or> \<not> isAuthenticated (device s)"
  shows "fst (setTargetStateHandler (Some x) s) = Inl NotConnected
       \<and> sent (device (snd (setTargetStateHandler (Some x) s))) = sent (device s)
       \<and> targetState (snd (setTargetStateHandler (Some x) s)) = targetState s
       \<and> currentState (snd (setTargetStateHandler (Some x) s)) = currentState s
       \<and> snd (setTargetStateHandler (Some x) s) = s"
  using assms setTargetStateHandler_refused [of x s] by auto

theorem setTargetStateHandler_not_connected_witness:
  "OPEN \<noteq> targetState initial
   \<and> \<not> isConnected (device initial)
   \<and> sent (device initial) = [Connect True]
   \<and> setTargetStateHandler (Some OPEN) initial = (Inl NotConnected, initial)"
proof -
  have h1: "OPEN \<noteq> targetState initial"
    by (simp add: initial_def OPEN_def)
  have h2: "\<not> isConnected (device initial) \<or> \<not> isAuthenticated (device initial)"
    by (simp add: initial_def)
  have h3: "\<not> isConnected (device initial) \<and> sent (device initial) = [Connect True]"
    by (simp add: initial_def)
  show ?thesis
    using h1 h3 setTargetStateHandler_not_connected [OF h1 h2]
    by (simp add: prod_eq_iff)
qed

subsection \<open>Executions\<close>

text \<open>
  C3, as the code has it: along every execution of either copy, from any state, a step
  issues \<open>sendOpen\<close> or \<open>sendClose\<close> only when it starts with the device connected and
  authenticated; \<open>setTargetStateHandler\<close> with a value other than \<open>targetState\<close>,
  arriving while one of the flags is false, fails with 'Not Connected' and leaves the
  object, its list of issued commands included, as it was; \<open>getCurrentStateHandler\<close>
  issues \<open>sendQuery\<close> whatever the flags are.
\<close>

theorem actuation_commands_gated:
  "actuation_gated v ins s
   \<and> (x \<noteq> targetState s \<and> \<not> (isConnected (device s) \<and> isAuthenticated (device s)) \<longrightarrow>
        setTargetStateHandler (Some x) s = (Inl NotConnected, s))
   \<and> issued s (snd (getCurrentStateHandler s)) = [SendQuery]"
proof (intro conjI)
  show "actuation_gated v ins s"
  proof (induction ins arbitrary: s)
    case Nil
    show ?case by simp
  next
    case (Cons i ins)
    have "SendOpen \<in> set (issued s (step v i s)) \<or> SendClose \<in> set (issued s (step v i s)) \<Longrightarrow>
      isConnected (device s) \<and> isAuthenticated (device s)"
      by (rule step_gated)
    with Cons.IH [of "step v i s"] show ?case by auto
  qed
next
  show "x \<noteq> targetState s \<and> \<not> (isConnected (device s) \<and> isAuthenticated (device s)) \<longrightarrow>
        setTargetStateHandler (Some x) s = (Inl NotConnected, s)"
    using setTargetStateHandler_refused by blast
next
  show "issued s (snd (getCurrentStateHandler s)) = [SendQuery]"
    by (simp add: issued_def getCurrentStateHandler_def call_def)
qed

theorem actuation_commands_gated_witness:
  "actuation_gated PlatformAccessory
     [SetTargetState (Some OPEN), DeviceFlags True True, SetTargetState (Some OPEN)] initial
   \<and> sent (device (run PlatformAccessory
        [SetTargetState (Some OPEN), DeviceFlags True True, SetTargetState (Some OPEN)] initial))
       = [Connect True, SendOpen]
   \<and> OPEN \<noteq> targetState initial
   \<and> \<not> (isConnected (device initial) \<and> isAuthenticated (device initial))
   \<and> setTargetStateHandler (Some OPEN) initial = (Inl NotConnected, initial)"
  using actuation_commands_gated [of PlatformAccessory
      "[SetTargetState (Some OPEN), DeviceFlags True True, SetTargetState (Some OPEN)]"
      initial OPEN]
  by (simp add: initial_def setTargetStateHandler_def call_def issued_def OPEN_def)

text \<open>
  C3 as stated fails for \<open>sendQuery\<close> and for requests that need no command: with the
  device neither connected nor authenticated and \<open>currentState\<close> OPEN,
  \<open>getCurrentStateHandler\<close> returns OPEN, so the request does not fail, and issues
  \<open>sendQuery\<close>.
\<close>

theorem getCurrentState_disconnected_counterexample:
  "\<not> isConnected (device (initial\<lparr>currentState := OPEN\<rparr>))
   \<and> \<not> isAuthenticated (device (initial\<lparr>currentState := OPEN\<rparr>))
   \<and> fst (getCurrentStateHandler (initial\<lparr>currentState := OPEN\<rparr>)) = Inr OPEN
   \<and> issued (initial\<lparr>currentState := OPEN\<rparr>)
        (snd (getCurrentStateHandler (initial\<lparr>currentState := OPEN\<rparr>))) = [SendQuery]"
  by (simp add: initial_def getCurrentStateHandler_def call_def issued_def OPEN_def)

text \<open>
  C10: in every state an execution of either copy reaches from the freshly configured
  accessory, \<open>currentState\<close> is UNKNOWN, OPEN, CLOSED, OPENING or CLOSING, and so never
  STOPPED. \<open>setCurrentDoorState\<close> does nothing with a string other than 'open', 'closed',
  'opening' and 'closing', so a StateChange event or the response to a query carrying
  'stopped', or any other such string, leaves \<open>currentState\<close> as it was.
\<close>

theorem currentState_never_STOPPED:
  "currentState (run v ins initial) \<in> {UNKNOWN, OPEN, CLOSED, OPENING, CLOSING}
   \<and> currentState (run v ins initial) \<noteq> STOPPED
   \<and> (st \<notin> {''open'', ''closed'', ''opening'', ''closing''} \<longrightarrow> setCurrentDoorState st s = s)
   \<and> (st \<notin> {''open'', ''closed'', ''opening'', ''closing''} \<and> stateChange p st \<longrightarrow>
        currentState (handleIncomingMessage v f (Some p) s) = currentState s)
   \<and> (st \<notin> {''open'', ''closed'', ''opening'', ''closing''} \<and> queryResponse p st \<longrightarrow>
        currentState (handleIncomingMessage v f (Some p) s) = currentState s)"
proof (intro conjI)
  have "currentState initial \<in> door_values"
    by (simp add: initial_def door_values_def UNKNOWN_def)
  then have r: "currentState (run v ins initial) \<in> door_values"
    by (rule run_keeps)
  then show "currentState (run v ins initial) \<in> {UNKNOWN, OPEN, CLOSED, OPENING, CLOSING}"
    by (simp add: door_values_def)
  have "STOPPED \<notin> door_values"
    by (simp add: door_values_def door_state_defs)
  with r show "currentState (run v ins initial) \<noteq> STOPPED"
    by auto
next
  show "st \<notin> {''open'', ''closed'', ''opening'', ''closing''} \<longrightarrow> setCurrentDoorState st s = s"
    by (simp add: setCurrentDoorState_def)
next
  show "st \<notin> {''open'', ''closed'', ''opening'', ''closing''} \<and> stateChange p st \<longrightarrow>
        currentState (handleIncomingMessage v f (Some p) s) = currentState s"
    by (cases v) (auto simp add: stateChange_accessory stateChange_platform
        setCurrentDoorState_def)
next
  show "st \<notin> {''open'', ''closed'', ''opening'', ''closing''} \<and> queryResponse p st \<longrightarrow>
        currentState (handleIncomingMessage v f (Some p) s) = currentState s"
    by (auto simp add: queryResponse_any setCurrentDoorState_def)
qed

theorem currentState_never_STOPPED_witness:
  "''stopped'' \<notin> {''open'', ''closed'', ''opening'', ''closing''}
   \<and> stateChange
       \<lparr>event = Some \<lparr>event_type = ''StateChange'', event_state = Some ''stopped'', event_data = None\<rparr>,
        response = None\<rparr> ''stopped''
   \<and> currentState (run PlatformAccessory
        [IncomingMessage None
           (Some \<lparr>event = Some \<lparr>event_type = ''StateChange'', event_state = Some ''stopped'',
                                 event_data = None\<rparr>,
                  response = None\<rparr>)] initial) = UNKNOWN
   \<and> UNKNOWN \<noteq> STOPPED
   \<and> setCurrentDoorState ''stopped'' initial = initial"
proof -
  have h1: "''stopped'' \<notin> {''open'', ''closed'', ''opening'', ''closing''}"
    by simp
  have h2: "stateChange
       \<lparr>event = Some \<lparr>event_type = ''StateChange'', event_state = Some ''stopped'', event_data = None\<rparr>,
        response = None\<rparr> ''stopped''"
    by (simp add: stateChange_def)
  have h3: "currentState initial = UNKNOWN"
    by (simp add: initial_def UNKNOWN_def)
  have h4: "UNKNOWN \<noteq> STOPPED"
    by (simp add: door_state_defs)
  show ?thesis
    using h1 h2 h3 h4
      currentState_never_STOPPED [of PlatformAccessory "[]" "''stopped''" initial
        "\<lparr>event = Some \<lparr>event_type = ''StateChange'', event_state = Some ''stopped'',
                          event_data = None\<rparr>, response = None\<rparr>"
        None]
    by simp
qed

end
